theory Spec2Isabelle
  imports Complex_Main "HOL-Library.AList" "HOL-Library.Multiset" "HOL-Library.Product_Lexorder"
    "HOL-Library.Sublist"
begin

section \<open>Conventions of the embedding\<close>

text \<open>
  The development embeds the scoring engine (\<^verbatim>\<open>scoring_engine.py\<close>), the explanation
  operation of the prediction engine (\<^verbatim>\<open>prediction_engine.py\<close>), the interactive session
  (\<^verbatim>\<open>decision_tree.py\<close>) and the parts of the data loader they call
  (\<^verbatim>\<open>data_loader.py\<close>).

  \<^item> A Python \<^verbatim>\<open>float\<close> is modelled by a \<open>real\<close>: arithmetic is exact, rounding, infinities
    and NaN are outside the model.
  \<^item> A Python \<^verbatim>\<open>dict\<close> is an association list in insertion order; \<open>map_of\<close> is
    \<^verbatim>\<open>dict.get\<close>, \<open>AList.update\<close> is \<^verbatim>\<open>d[k] = v\<close> (an existing key keeps its place, a new
    key goes to the end). Dictionaries that are only looked up and stored into are maps.
  \<^item> A Python \<^verbatim>\<open>set\<close> is the list of its elements in the order in which it is iterated.
    No statement below depends on that order.
  \<^item> A formatted explanation text is represented by its template and its arguments.
\<close>

type_synonym 'a pyset = "'a list"

definition pyset_add :: "'a \<Rightarrow> 'a pyset \<Rightarrow> 'a pyset" where
  "pyset_add x xs = (if x \<in> set xs then xs else xs @ [x])"

definition pyset_discard :: "'a \<Rightarrow> 'a pyset \<Rightarrow> 'a pyset" where
  "pyset_discard x xs = removeAll x xs"

section \<open>Data model (\<^verbatim>\<open>data_loader.py\<close>, \<^verbatim>\<open>output_models.py\<close>)\<close>

record PhenotypeProfile =
  name :: string
  hpo_id :: string
  genes_with :: "string list"
  genes_without :: "string list"
  prevalence :: real
  specificity :: real
  non_target_ird_genes :: "string list"
  non_ird_genes :: "string list"

record ModuleProfile =
  module_id :: int
  phenotypes :: "(string \<times> PhenotypeProfile) list"
  all_genes :: "string pyset"

record GeneInfo =
  gene :: string
  gi_module_id :: int
  stability_score :: real
  classification :: string

record DataLoader =
  module_profiles :: "(int \<times> ModuleProfile) list"
  gene_mapping :: "string \<rightharpoonup> GeneInfo"
  phenotype_to_modules :: "string \<rightharpoonup> int pyset"
  phenotype_name_to_hpo :: "string \<rightharpoonup> string"
  module_genes :: "int \<rightharpoonup> string pyset"

definition get_gene_info :: "DataLoader \<Rightarrow> string \<Rightarrow> GeneInfo option" where
  "get_gene_info ld g = gene_mapping ld g"

definition get_module_profile :: "DataLoader \<Rightarrow> int \<Rightarrow> ModuleProfile option" where
  "get_module_profile ld m = map_of (module_profiles ld) m"

definition get_module_genes :: "DataLoader \<Rightarrow> int \<Rightarrow> string pyset" where
  "get_module_genes ld m = (case module_genes ld m of None \<Rightarrow> [] | Some gs \<Rightarrow> gs)"

definition get_all_module_ids :: "DataLoader \<Rightarrow> int list" where
  "get_all_module_ids ld = sort (remdups (map fst (module_profiles ld)))"

datatype reason =
    Present_in_module real real
  | Excluded_but_present
  | Supports_module real real
  | Not_present_in_profile
  | Penalizes_module real

record ExplainabilityItem =
  phenotype_name :: string
  ei_hpo_id :: string
  contribution :: real
  explanation :: reason

record PhenotypeInfo =
  pi_name :: string
  pi_hpo_id :: string
  pi_prevalence :: real
  pi_specificity :: real
  pi_genes :: "string list"

record ModuleMatch =
  mm_module_id :: int
  score :: real
  confidence :: real
  gene_count :: nat
  contributing_phenotypes :: "PhenotypeInfo list"
  penalized_phenotypes :: "PhenotypeInfo list"

record GeneCandidate =
  gc_gene :: string
  gc_module_id :: int
  support_score :: real
  gc_stability_score :: real
  gc_classification :: string
  supporting_phenotypes :: "string list"

section \<open>Scoring engine (\<^verbatim>\<open>scoring_engine.py\<close>)\<close>

record ScoringConfig =
  prevalence_weight :: real
  specificity_weight :: real
  exclusion_penalty :: real
  stability_bonus :: real
  min_confidence_threshold :: real

definition default_ScoringConfig :: ScoringConfig where
  "default_ScoringConfig =
     \<lparr>prevalence_weight = 1, specificity_weight = 1, exclusion_penalty = 1/2,
      stability_bonus = 1/10, min_confidence_threshold = 1/10\<rparr>"

record ScoringEngine =
  se_loader :: DataLoader
  se_config :: ScoringConfig

definition ScoringEngine_init :: "DataLoader \<Rightarrow> ScoringConfig option \<Rightarrow> ScoringEngine" where
  "ScoringEngine_init loader config =
     \<lparr>se_loader = loader,
      se_config = (case config of None \<Rightarrow> default_ScoringConfig | Some c \<Rightarrow> c)\<rparr>"

definition score_phenotype :: "ScoringEngine \<Rightarrow> PhenotypeProfile \<Rightarrow> real" where
  "score_phenotype self pheno =
     (let prev = prevalence pheno / 100;
          spec = specificity pheno / 100
      in prevalence_weight (se_config self) * prev + specificity_weight (se_config self) * spec)"

text \<open>The first loop of \<^verbatim>\<open>score_module\<close>: the observed identifiers.\<close>

fun score_observed ::
  "ScoringEngine \<Rightarrow> ModuleProfile \<Rightarrow> string list \<Rightarrow> real \<times> ExplainabilityItem list
     \<Rightarrow> real \<times> ExplainabilityItem list" where
  "score_observed self profile [] acc = acc"
| "score_observed self profile (h # hs) (sc, expl) =
     (case map_of (phenotypes profile) h of
        None \<Rightarrow> score_observed self profile hs (sc, expl)
      | Some pheno \<Rightarrow>
          (let contrib = score_phenotype self pheno
           in score_observed self profile hs
                (sc + contrib,
                 expl @ [\<lparr>phenotype_name = name pheno, ei_hpo_id = h, contribution = contrib,
                           explanation = Present_in_module (prevalence pheno) (specificity pheno)\<rparr>])))"

text \<open>The second loop of \<^verbatim>\<open>score_module\<close>: the excluded identifiers.\<close>

fun score_excluded ::
  "ScoringEngine \<Rightarrow> ModuleProfile \<Rightarrow> string list \<Rightarrow> real \<times> ExplainabilityItem list
     \<Rightarrow> real \<times> ExplainabilityItem list" where
  "score_excluded self profile [] acc = acc"
| "score_excluded self profile (h # hs) (sc, expl) =
     (case map_of (phenotypes profile) h of
        None \<Rightarrow> score_excluded self profile hs (sc, expl)
      | Some pheno \<Rightarrow>
          (if prevalence pheno > 0 then
             (let penalty = score_phenotype self pheno * exclusion_penalty (se_config self)
              in score_excluded self profile hs
                   (sc - penalty,
                    expl @ [\<lparr>phenotype_name = name pheno, ei_hpo_id = h, contribution = - penalty,
                              explanation = Excluded_but_present\<rparr>]))
           else score_excluded self profile hs (sc, expl)))"

definition score_module ::
  "ScoringEngine \<Rightarrow> int \<Rightarrow> string pyset \<Rightarrow> string pyset \<Rightarrow> real \<times> ExplainabilityItem list" where
  "score_module self m observed_hpo_ids excluded_hpo_ids =
     (case get_module_profile (se_loader self) m of
        None \<Rightarrow> (0, [])
      | Some profile \<Rightarrow>
          (let acc1 = score_observed self profile observed_hpo_ids (0, []);
               acc2 = score_excluded self profile excluded_hpo_ids acc1
           in (max 0 (fst acc2), snd acc2)))"












text \<open>
  \<^verbatim>\<open>list.sort(key=..., reverse=True)\<close>: a stable sort into descending order, elements with
  equal keys keeping their order. CPython reverses the list, sorts it stably into ascending
  order and reverses it again; \<open>sort_key\<close> is a stable insertion sort.
\<close>

definition py_sort_reverse :: "('a \<Rightarrow> 'k::linorder) \<Rightarrow> 'a list \<Rightarrow> 'a list" where
  "py_sort_reverse key xs = rev (sort_key key (rev xs))"

text \<open>The loop of \<^verbatim>\<open>rank_modules\<close> over the explanations of one module.\<close>

fun collect_phenotypes ::
  "ModuleProfile option \<Rightarrow> ExplainabilityItem list \<Rightarrow> PhenotypeInfo list \<times> PhenotypeInfo list
     \<Rightarrow> PhenotypeInfo list \<times> PhenotypeInfo list" where
  "collect_phenotypes profile [] acc = acc"
| "collect_phenotypes profile (e # es) (contributing, penalized) =
     (case (case profile of None \<Rightarrow> None | Some p \<Rightarrow> map_of (phenotypes p) (ei_hpo_id e)) of
        None \<Rightarrow> collect_phenotypes profile es (contributing, penalized)
      | Some pheno \<Rightarrow>
          (let info = \<lparr>pi_name = name pheno, pi_hpo_id = ei_hpo_id e,
                       pi_prevalence = prevalence pheno, pi_specificity = specificity pheno,
                       pi_genes = genes_with pheno\<rparr>
           in if contribution e > 0
              then collect_phenotypes profile es (contributing @ [info], penalized)
              else collect_phenotypes profile es (contributing, penalized @ [info])))"

text \<open>The body of the loop of \<^verbatim>\<open>rank_modules\<close> over the module identifiers.\<close>

definition module_match :: "ScoringEngine \<Rightarrow> string pyset \<Rightarrow> string pyset \<Rightarrow> int \<Rightarrow> ModuleMatch" where
  "module_match self observed_hpo_ids excluded_hpo_ids m =
     (let (sc, explanations) = score_module self m observed_hpo_ids excluded_hpo_ids;
          profile = get_module_profile (se_loader self) m;
          gc = (case profile of None \<Rightarrow> 0 | Some p \<Rightarrow> card (set (all_genes p)));
          (contributing, penalized) = collect_phenotypes profile explanations ([], [])
      in \<lparr>mm_module_id = m, score = sc, confidence = 0, gene_count = gc,
          contributing_phenotypes = contributing, penalized_phenotypes = penalized\<rparr>)"

text \<open>The confidence assignment of \<^verbatim>\<open>rank_modules\<close>, after the sort.\<close>

definition assign_confidence :: "ModuleMatch list \<Rightarrow> ModuleMatch list" where
  "assign_confidence results =
     (case results of
        [] \<Rightarrow> []
      | [r0] \<Rightarrow> if score r0 > 0 then [r0\<lparr>confidence := 1\<rparr>] else [r0]
      | r0 # r1 # rest \<Rightarrow>
          if score r0 > 0 then
            (let separation = (score r0 - score r1) / score r0;
                 top = r0\<lparr>confidence := min 1 (max 0 separation)\<rparr>
             in top # map (\<lambda>match.
                             if score top > 0
                             then (let relative_score = score match / score top
                                   in match\<lparr>confidence := relative_score * (1 - confidence top)\<rparr>)
                             else match) (r1 # rest))
          else r0 # r1 # rest)"

definition rank_modules :: "ScoringEngine \<Rightarrow> string pyset \<Rightarrow> string pyset \<Rightarrow> ModuleMatch list" where
  "rank_modules self observed_hpo_ids excluded_hpo_ids =
     assign_confidence
       (py_sort_reverse score
          (map (module_match self observed_hpo_ids excluded_hpo_ids)
               (get_all_module_ids (se_loader self))))"

text \<open>
  \<^verbatim>\<open>rank_genes\<close>. The dictionary \<^verbatim>\<open>gene_scores\<close> maps a gene to its score and the names of
  its supporting phenotypes. The inner loop runs over \<^verbatim>\<open>pheno.genes_with\<close>; the read
  \<^verbatim>\<open>gene_scores[gene]\<close> follows a store under the same key, so it never misses.
\<close>

type_synonym gene_scores = "(string \<times> real \<times> string list) list"

fun add_support :: "real \<Rightarrow> string \<Rightarrow> string list \<Rightarrow> gene_scores \<Rightarrow> gene_scores" where
  "add_support contrib nm [] gs = gs"
| "add_support contrib nm (g # genes) gs =
     (let gs1 = (if map_of gs g = None then AList.update g (0, []) gs else gs)
      in case map_of gs1 g of
           None \<Rightarrow> add_support contrib nm genes gs1
         | Some (current_score, pheno_list) \<Rightarrow>
             add_support contrib nm genes
               (AList.update g (current_score + contrib, pheno_list @ [nm]) gs1))"

fun gene_support :: "ScoringEngine \<Rightarrow> ModuleProfile \<Rightarrow> string list \<Rightarrow> gene_scores \<Rightarrow> gene_scores" where
  "gene_support self profile [] gs = gs"
| "gene_support self profile (h # hs) gs =
     (case map_of (phenotypes profile) h of
        None \<Rightarrow> gene_support self profile hs gs
      | Some pheno \<Rightarrow>
          gene_support self profile hs
            (add_support (score_phenotype self pheno) (name pheno) (genes_with pheno) gs))"

fun add_module_genes :: "string list \<Rightarrow> gene_scores \<Rightarrow> gene_scores" where
  "add_module_genes [] gs = gs"
| "add_module_genes (g # genes) gs =
     add_module_genes genes (if map_of gs g = None then AList.update g (0, []) gs else gs)"

fun build_candidates :: "ScoringEngine \<Rightarrow> int \<Rightarrow> gene_scores \<Rightarrow> GeneCandidate list" where
  "build_candidates self m [] = []"
| "build_candidates self m ((g, support, supporting_phenos) # items) =
     (case get_gene_info (se_loader self) g of
        None \<Rightarrow> build_candidates self m items
      | Some gene_info \<Rightarrow>
          (let final_score =
                 (if classification gene_info = ''core''
                  then support + stability_bonus (se_config self)
                  else if classification gene_info = ''unstable''
                  then support - stability_bonus (se_config self) * (1/2)
                  else support)
           in \<lparr>gc_gene = g, gc_module_id = m, support_score = final_score,
                gc_stability_score = stability_score gene_info,
                gc_classification = classification gene_info,
                supporting_phenotypes = supporting_phenos\<rparr>
              # build_candidates self m items))"

definition rank_genes :: "ScoringEngine \<Rightarrow> int \<Rightarrow> string pyset \<Rightarrow> GeneCandidate list" where
  "rank_genes self m observed_hpo_ids =
     (case get_module_profile (se_loader self) m of
        None \<Rightarrow> []
      | Some profile \<Rightarrow>
          (let gs1 = gene_support self profile observed_hpo_ids [];
               gs2 = add_module_genes (get_module_genes (se_loader self) m) gs1;
               candidates = build_candidates self m gs2
           in py_sort_reverse (\<lambda>x. (support_score x, gc_stability_score x)) candidates))"

section \<open>Explanation of a score (\<^verbatim>\<open>prediction_engine.py\<close>)\<close>

record PredictionConfig =
  min_prevalence :: real
  min_specificity :: real
  max_predictions :: int

definition default_PredictionConfig :: PredictionConfig where
  "default_PredictionConfig = \<lparr>min_prevalence = 20, min_specificity = 5, max_predictions = 10\<rparr>"

record PredictionEngine =
  pe_loader :: DataLoader
  pe_config :: PredictionConfig

definition PredictionEngine_init :: "DataLoader \<Rightarrow> PredictionConfig option \<Rightarrow> PredictionEngine" where
  "PredictionEngine_init loader config =
     \<lparr>pe_loader = loader,
      pe_config = (case config of None \<Rightarrow> default_PredictionConfig | Some c \<Rightarrow> c)\<rparr>"

fun explain_observed ::
  "ModuleProfile \<Rightarrow> string list \<Rightarrow> ExplainabilityItem list \<Rightarrow> ExplainabilityItem list" where
  "explain_observed profile [] explanations = explanations"
| "explain_observed profile (h # hs) explanations =
     (case map_of (phenotypes profile) h of
        Some pheno \<Rightarrow>
          (let sc = (prevalence pheno + specificity pheno) / 200
           in explain_observed profile hs
                (explanations @
                 [\<lparr>phenotype_name = name pheno, ei_hpo_id = h, contribution = sc,
                   explanation = Supports_module (prevalence pheno) (specificity pheno)\<rparr>]))
      | None \<Rightarrow>
          explain_observed profile hs
            (explanations @
             [\<lparr>phenotype_name = ''Unknown'', ei_hpo_id = h, contribution = 0,
               explanation = Not_present_in_profile\<rparr>]))"

fun explain_excluded ::
  "ModuleProfile \<Rightarrow> string list \<Rightarrow> ExplainabilityItem list \<Rightarrow> ExplainabilityItem list" where
  "explain_excluded profile [] explanations = explanations"
| "explain_excluded profile (h # hs) explanations =
     (case map_of (phenotypes profile) h of
        None \<Rightarrow> explain_excluded profile hs explanations
      | Some pheno \<Rightarrow>
          (if prevalence pheno > 0 then
             (let penalty = (prevalence pheno + specificity pheno) / 400
              in explain_excluded profile hs
                   (explanations @
                    [\<lparr>phenotype_name = name pheno, ei_hpo_id = h, contribution = - penalty,
                      explanation = Penalizes_module (prevalence pheno)\<rparr>]))
           else explain_excluded profile hs explanations))"

definition explain_scoring ::
  "PredictionEngine \<Rightarrow> int \<Rightarrow> string pyset \<Rightarrow> string pyset \<Rightarrow> ExplainabilityItem list" where
  "explain_scoring self m observed_hpo_ids excluded_hpo_ids =
     (case get_module_profile (pe_loader self) m of
        None \<Rightarrow> []
      | Some profile \<Rightarrow>
          (let e1 = explain_observed profile observed_hpo_ids [];
               e2 = explain_excluded profile excluded_hpo_ids e1
           in py_sort_reverse (\<lambda>x. \<bar>contribution x\<bar>) e2))"

section \<open>Loading and resolving (\<^verbatim>\<open>data_loader.py\<close>)\<close>

text \<open>
  The loader starts empty. The rows of the gene classification file are given parsed
  (\<open>None\<close> is a missing gene cell); the module profiles are given as they are after
  \<^verbatim>\<open>_load_module_profiles\<close>, whose parsing of spreadsheet cells is not modelled.
\<close>

definition DataLoader_init :: DataLoader where
  "DataLoader_init =
     \<lparr>module_profiles = [], gene_mapping = Map.empty, phenotype_to_modules = Map.empty,
      phenotype_name_to_hpo = Map.empty, module_genes = Map.empty\<rparr>"

record GeneRow =
  row_gene :: "string option"
  row_module_id :: int
  row_stability_score :: real
  row_classification :: string

fun load_gene_mapping :: "GeneRow list \<Rightarrow> DataLoader \<Rightarrow> DataLoader" where
  "load_gene_mapping [] ld = ld"
| "load_gene_mapping (row # rows) ld =
     (case row_gene row of
        None \<Rightarrow> load_gene_mapping rows ld
      | Some g \<Rightarrow>
          if g = [] then load_gene_mapping rows ld
          else
            (let gm = (gene_mapping ld)
                        (g \<mapsto> \<lparr>gene = g, gi_module_id = row_module_id row,
                                stability_score = row_stability_score row,
                                classification = row_classification row\<rparr>);
                 mid = row_module_id row;
                 mg0 = module_genes ld;
                 mg1 = (if mg0 mid = None then mg0(mid \<mapsto> []) else mg0);
                 mg2 = (case mg1 mid of None \<Rightarrow> mg1 | Some s \<Rightarrow> mg1(mid \<mapsto> pyset_add g s))
             in load_gene_mapping rows (ld\<lparr>gene_mapping := gm, module_genes := mg2\<rparr>)))"

text \<open>\<^verbatim>\<open>str.lower\<close>, on the ASCII letters; other characters are left as they are.\<close>

definition lower_char :: "char \<Rightarrow> char" where
  "lower_char c =
     (let n = (of_char c :: nat) in if 65 \<le> n \<and> n \<le> 90 then char_of (n + 32) else c)"

definition lower :: "string \<Rightarrow> string" where
  "lower s = map lower_char s"

text \<open>\<^verbatim>\<open>_build_indexes\<close>: the inner loop over the phenotypes of one module, then the outer loop.\<close>

fun index_phenotypes :: "int \<Rightarrow> (string \<times> PhenotypeProfile) list \<Rightarrow> DataLoader \<Rightarrow> DataLoader" where
  "index_phenotypes mid [] ld = ld"
| "index_phenotypes mid ((h, pheno) # items) ld =
     (let p2m0 = phenotype_to_modules ld;
          p2m1 = (if p2m0 h = None then p2m0(h \<mapsto> []) else p2m0);
          p2m2 = (case p2m1 h of None \<Rightarrow> p2m1 | Some s \<Rightarrow> p2m1(h \<mapsto> pyset_add mid s));
          name_lower = lower (name pheno);
          n2h0 = phenotype_name_to_hpo ld;
          n2h1 = (if n2h0 name_lower = None then n2h0(name_lower \<mapsto> h) else n2h0)
      in index_phenotypes mid items
           (ld\<lparr>phenotype_to_modules := p2m2, phenotype_name_to_hpo := n2h1\<rparr>))"

fun index_modules :: "(int \<times> ModuleProfile) list \<Rightarrow> DataLoader \<Rightarrow> DataLoader" where
  "index_modules [] ld = ld"
| "index_modules ((mid, profile) # items) ld =
     index_modules items (index_phenotypes mid (phenotypes profile) ld)"

definition build_indexes :: "DataLoader \<Rightarrow> DataLoader" where
  "build_indexes ld = index_modules (module_profiles ld) ld"

text \<open>
  \<^verbatim>\<open>load\<close>: the gene classification, then the module profiles, then the indexes. The
  profiles stand for the result of \<^verbatim>\<open>_load_module_profiles\<close>.
\<close>

definition load :: "GeneRow list \<Rightarrow> (int \<times> ModuleProfile) list \<Rightarrow> DataLoader" where
  "load rows profiles =
     build_indexes ((load_gene_mapping rows DataLoader_init)\<lparr>module_profiles := profiles\<rparr>)"

definition resolve_phenotype :: "DataLoader \<Rightarrow> string \<Rightarrow> string option" where
  "resolve_phenotype ld identifier =
     (if prefix ''HP:'' identifier then
        (if phenotype_to_modules ld identifier \<noteq> None then Some identifier else None)
      else phenotype_name_to_hpo ld (lower identifier))"

section \<open>Interactive session (\<^verbatim>\<open>decision_tree.py\<close>)\<close>

datatype Response = YES | NO | UNKNOWN

record SessionState =
  observed :: "string pyset"
  excluded :: "string pyset"
  unknown :: "string pyset"
  history :: "(string \<times> string \<times> Response) list"

definition SessionState_init :: SessionState where
  "SessionState_init = \<lparr>observed = [], excluded = [], unknown = [], history = []\<rparr>"

record InteractiveSession =
  is_loader :: DataLoader
  scorer :: ScoringEngine
  predictor :: PredictionEngine
  state :: SessionState
  cached_modules :: "ModuleMatch list"
  cache_valid :: bool

text \<open>The constructor, called with a loader (without one it reads the data files).\<close>

definition InteractiveSession_init ::
  "DataLoader \<Rightarrow> ScoringConfig option \<Rightarrow> PredictionConfig option \<Rightarrow> InteractiveSession" where
  "InteractiveSession_init loader scoring_config prediction_config =
     \<lparr>is_loader = loader,
      scorer = ScoringEngine_init loader scoring_config,
      predictor = PredictionEngine_init loader prediction_config,
      state = SessionState_init,
      cached_modules = [],
      cache_valid = False\<rparr>"

definition reset :: "InteractiveSession \<Rightarrow> InteractiveSession" where
  "reset self = self\<lparr>state := SessionState_init, cache_valid := False\<rparr>"

definition answer ::
  "InteractiveSession \<Rightarrow> string \<Rightarrow> Response \<Rightarrow> string option \<Rightarrow> InteractiveSession" where
  "answer self identifier response phenotype_name_opt =
     (let h = (case resolve_phenotype (is_loader self) identifier of
                 None \<Rightarrow> identifier | Some r \<Rightarrow> r);
          st = state self;
          obs1 = pyset_discard h (observed st);
          exc1 = pyset_discard h (excluded st);
          unk1 = pyset_discard h (unknown st);
          st1 = (case response of
                   YES \<Rightarrow> st\<lparr>observed := pyset_add h obs1, excluded := exc1, unknown := unk1\<rparr>
                 | NO \<Rightarrow> st\<lparr>observed := obs1, excluded := pyset_add h exc1, unknown := unk1\<rparr>
                 | UNKNOWN \<Rightarrow> st\<lparr>observed := obs1, excluded := exc1, unknown := pyset_add h unk1\<rparr>);
          nm = (case phenotype_name_opt of
                  None \<Rightarrow> identifier
                | Some n \<Rightarrow> if n = [] then identifier else n)
      in self\<lparr>state := st1\<lparr>history := history st1 @ [(nm, h, response)]\<rparr>,
              cache_valid := False\<rparr>)"

text \<open>The operations a caller applies to a session, and a run of them in order.\<close>

datatype operation = Answer string Response "string option" | Reset

fun apply_operation :: "InteractiveSession \<Rightarrow> operation \<Rightarrow> InteractiveSession" where
  "apply_operation self (Answer identifier response nm) = answer self identifier response nm"
| "apply_operation self Reset = reset self"

fun run :: "InteractiveSession \<Rightarrow> operation list \<Rightarrow> InteractiveSession" where
  "run self [] = self"
| "run self (op # ops) = run (apply_operation self op) ops"

text \<open>The three sets of a session state are pairwise disjoint.\<close>

definition disjoint_state :: "SessionState \<Rightarrow> bool" where
  "disjoint_state st \<longleftrightarrow>
     set (observed st) \<inter> set (excluded st) = {} \<and>
     set (observed st) \<inter> set (unknown st) = {} \<and>
     set (excluded st) \<inter> set (unknown st) = {}"

section \<open>The specification's reading of the operations\<close>

text \<open>
  The phenotype map of a module, as the scoring engine sees it: empty for a module
  without a profile.
\<close>

definition module_phenotype :: "DataLoader \<Rightarrow> int \<Rightarrow> string \<Rightarrow> PhenotypeProfile option" where
  "module_phenotype ld m h =
     (case get_module_profile ld m of None \<Rightarrow> None | Some p \<Rightarrow> map_of (phenotypes p) h)"

text \<open>
  The specification of \<^verbatim>\<open>score_phenotype\<close> and \<^verbatim>\<open>score_module\<close>, in its own words: the
  reward of an observed identifier, the penalty of an excluded one, and the floored
  difference of the two sums over the sets of identifiers.
\<close>

definition spec_score_phenotype :: "ScoringConfig \<Rightarrow> PhenotypeProfile \<Rightarrow> real" where
  "spec_score_phenotype cfg p =
     prevalence_weight cfg * (prevalence p / 100) + specificity_weight cfg * (specificity p / 100)"

definition spec_reward :: "ScoringEngine \<Rightarrow> int \<Rightarrow> string \<Rightarrow> real" where
  "spec_reward self m h =
     (case module_phenotype (se_loader self) m h of
        None \<Rightarrow> 0
      | Some p \<Rightarrow> spec_score_phenotype (se_config self) p)"

definition spec_penalty :: "ScoringEngine \<Rightarrow> int \<Rightarrow> string \<Rightarrow> real" where
  "spec_penalty self m h =
     (case module_phenotype (se_loader self) m h of
        None \<Rightarrow> 0
      | Some p \<Rightarrow>
          if prevalence p > 0
          then spec_score_phenotype (se_config self) p * exclusion_penalty (se_config self)
          else 0)"

definition spec_score_module :: "ScoringEngine \<Rightarrow> int \<Rightarrow> string set \<Rightarrow> string set \<Rightarrow> real" where
  "spec_score_module self m obs exc =
     max 0 ((\<Sum>h\<in>obs. spec_reward self m h) - (\<Sum>h\<in>exc. spec_penalty self m h))"

text \<open>
  The entries of an explanation, as the specification gives them: for an observed
  identifier, with \<open>(prevalence + specificity) / 200\<close> when the module has the phenotype and
  with 0 when it has not; for an excluded identifier whose phenotype the module has with a
  prevalence above 0, with \<open>- (prevalence + specificity) / 400\<close>.
\<close>

definition spec_support_item :: "ModuleProfile \<Rightarrow> string \<Rightarrow> ExplainabilityItem" where
  "spec_support_item profile h =
     (case map_of (phenotypes profile) h of
        Some pheno \<Rightarrow>
          \<lparr>phenotype_name = name pheno, ei_hpo_id = h,
           contribution = (prevalence pheno + specificity pheno) / 200,
           explanation = Supports_module (prevalence pheno) (specificity pheno)\<rparr>
      | None \<Rightarrow>
          \<lparr>phenotype_name = ''Unknown'', ei_hpo_id = h, contribution = 0,
           explanation = Not_present_in_profile\<rparr>)"

definition spec_penalty_item :: "string \<Rightarrow> PhenotypeProfile \<Rightarrow> ExplainabilityItem" where
  "spec_penalty_item h pheno =
     \<lparr>phenotype_name = name pheno, ei_hpo_id = h,
      contribution = - ((prevalence pheno + specificity pheno) / 400),
      explanation = Penalizes_module (prevalence pheno)\<rparr>"

definition spec_penalty_items :: "ModuleProfile \<Rightarrow> string \<Rightarrow> ExplainabilityItem list" where
  "spec_penalty_items profile h =
     (case map_of (phenotypes profile) h of
        None \<Rightarrow> []
      | Some pheno \<Rightarrow> if prevalence pheno > 0 then [spec_penalty_item h pheno] else [])"

text \<open>The stability adjustment of a gene by its classification, as the specification gives it.\<close>

definition spec_stability_adjustment :: "ScoringConfig \<Rightarrow> string \<Rightarrow> real" where
  "spec_stability_adjustment cfg cls =
     (if cls = ''core'' then stability_bonus cfg
      else if cls = ''unstable'' then - (stability_bonus cfg * (1/2))
      else 0)"

text \<open>
  Properties of the reference data. Percentages are not negative (the data model gives
  prevalence and specificity as percentages); the genes of a module have a classification
  (\<^verbatim>\<open>_load_gene_mapping\<close> stores both together); every phenotype identifier of a module is in
  the index (\<^verbatim>\<open>_build_indexes\<close> puts it there); phenotype identifiers are HPO identifiers,
  \<^verbatim>\<open>HP:XXXXXXX\<close>.
\<close>

definition all_phenotypes :: "DataLoader \<Rightarrow> (string \<times> PhenotypeProfile) list" where
  "all_phenotypes ld = concat (map (\<lambda>(m, p). phenotypes p) (module_profiles ld))"

definition percentages_nonneg :: "DataLoader \<Rightarrow> bool" where
  "percentages_nonneg ld =
     list_all (\<lambda>(h, ph). 0 \<le> prevalence ph \<and> 0 \<le> specificity ph) (all_phenotypes ld)"

definition module_genes_classified :: "DataLoader \<Rightarrow> int \<Rightarrow> bool" where
  "module_genes_classified ld m =
     list_all (\<lambda>g. get_gene_info ld g \<noteq> None) (get_module_genes ld m)"



section \<open>A small reference data set\<close>

definition obesity7 :: PhenotypeProfile where
  "obesity7 =
     \<lparr>name = ''Obesity'', hpo_id = ''HP:0001513'', genes_with = [''BBS1'', ''BBS2''],
      genes_without = [], prevalence = 80, specificity = 40,
      non_target_ird_genes = [], non_ird_genes = []\<rparr>"

definition rod_cone7 :: PhenotypeProfile where
  "rod_cone7 =
     \<lparr>name = ''Rod-cone dystrophy'', hpo_id = ''HP:0000510'', genes_with = [''BBS1''],
      genes_without = [''BBS2''], prevalence = 90, specificity = 10,
      non_target_ird_genes = [''USH2A''], non_ird_genes = []\<rparr>"

definition hearing3 :: PhenotypeProfile where
  "hearing3 =
     \<lparr>name = ''Hearing impairment'', hpo_id = ''HP:0000365'', genes_with = [''USH2A''],
      genes_without = [], prevalence = 100, specificity = 50,
      non_target_ird_genes = [], non_ird_genes = []\<rparr>"

definition example_profiles :: "(int \<times> ModuleProfile) list" where
  "example_profiles =
     [(7, \<lparr>module_id = 7,
           phenotypes = [(''HP:0001513'', obesity7), (''HP:0000510'', rod_cone7)],
           all_genes = [''BBS1'', ''BBS2'']\<rparr>),
      (3, \<lparr>module_id = 3,
           phenotypes = [(''HP:0000365'', hearing3)],
           all_genes = [''USH2A'']\<rparr>)]"

definition example_genes :: "string \<rightharpoonup> GeneInfo" where
  "example_genes =
     [''BBS1'' \<mapsto> \<lparr>gene = ''BBS1'', gi_module_id = 7, stability_score = 9/10,
                    classification = ''core''\<rparr>,
      ''BBS2'' \<mapsto> \<lparr>gene = ''BBS2'', gi_module_id = 7, stability_score = 3/10,
                    classification = ''unstable''\<rparr>,
      ''USH2A'' \<mapsto> \<lparr>gene = ''USH2A'', gi_module_id = 3, stability_score = 7/10,
                     classification = ''peripheral''\<rparr>]"

definition example_loader :: DataLoader where
  "example_loader =
     \<lparr>module_profiles = example_profiles,
      gene_mapping = example_genes,
      phenotype_to_modules =
        [''HP:0001513'' \<mapsto> [7], ''HP:0000510'' \<mapsto> [7], ''HP:0000365'' \<mapsto> [3]],
      phenotype_name_to_hpo =
        [''obesity'' \<mapsto> ''HP:0001513'', ''rod-cone dystrophy'' \<mapsto> ''HP:0000510'',
         ''hearing impairment'' \<mapsto> ''HP:0000365''],
      module_genes = [7 \<mapsto> [''BBS1'', ''BBS2''], 3 \<mapsto> [''USH2A'']]\<rparr>"

definition example_engine :: ScoringEngine where
  "example_engine = ScoringEngine_init example_loader None"





text \<open>The same data with the first module only.\<close>

definition single_module_engine :: ScoringEngine where
  "single_module_engine =
     ScoringEngine_init (example_loader\<lparr>module_profiles := take 1 example_profiles\<rparr>) None"

section \<open>Basic facts about sets as lists\<close>

lemma pyset_discard_set: "set (pyset_discard x xs) = set xs - {x}"
  by (simp add: pyset_discard_def)

lemma pyset_add_set: "set (pyset_add x xs) = insert x (set xs)"
  by (auto simp: pyset_add_def)

lemma pyset_add_distinct: "distinct xs \<Longrightarrow> distinct (pyset_add x xs)"
  by (simp add: pyset_add_def)

lemma pyset_discard_distinct: "distinct xs \<Longrightarrow> distinct (pyset_discard x xs)"
  by (simp add: pyset_discard_def distinct_removeAll)

lemmas example_defs = example_engine_def example_loader_def example_profiles_def
  example_genes_def obesity7_def rod_cone7_def hearing3_def ScoringEngine_init_def
  default_ScoringConfig_def

section \<open>Unknown modules\<close>

text \<open>
  C8. For a module identifier without a module profile, \<^verbatim>\<open>score_module\<close> returns the score
  0 with no explanation items and \<^verbatim>\<open>rank_genes\<close> returns no gene. Both operations are
  total functions of the module identifier: no path of them raises.
\<close>

theorem unknown_module_degrades:
  "get_module_profile (se_loader self) m = None \<Longrightarrow>
     score_module self m obs exc = (0, []) \<and> rank_genes self m obs = []"
  by (simp add: score_module_def rank_genes_def)

theorem unknown_module_degrades_witness:
  "get_module_profile (se_loader example_engine) 5 = None \<and>
   score_module example_engine 5 [''HP:0000510''] [''HP:0000365''] = (0, []) \<and>
   rank_genes example_engine 5 [''HP:0000510''] = []"
proof -
  have h: "get_module_profile (se_loader example_engine) 5 = None"
    by (simp add: get_module_profile_def example_defs)
  show ?thesis using h unknown_module_degrades [OF h] by simp
qed

section \<open>The session invariant\<close>

lemma answer_disjoint:
  "disjoint_state (state self) \<Longrightarrow> disjoint_state (state (answer self i r nm))"
  by (cases r) (auto simp: answer_def disjoint_state_def Let_def pyset_discard_set pyset_add_set)

lemma reset_disjoint: "disjoint_state (state (reset self))"
  by (simp add: reset_def disjoint_state_def SessionState_init_def)

lemma apply_operation_disjoint:
  "disjoint_state (state self) \<Longrightarrow> disjoint_state (state (apply_operation self op))"
  by (cases op) (simp_all add: answer_disjoint reset_disjoint)

lemma run_disjoint: "disjoint_state (state self) \<Longrightarrow> disjoint_state (state (run self ops))"
  by (induction ops arbitrary: self) (simp_all add: apply_operation_disjoint)

lemma init_disjoint: "disjoint_state (state (InteractiveSession_init ld sc pc))"
  by (simp add: InteractiveSession_init_def disjoint_state_def SessionState_init_def)

lemma answer_membership:
  "(h \<in> set (observed (state (answer self i r nm)))) =
     (if h = (case resolve_phenotype (is_loader self) i of None \<Rightarrow> i | Some x \<Rightarrow> x)
      then r = YES else h \<in> set (observed (state self)))"
  "(h \<in> set (excluded (state (answer self i r nm)))) =
     (if h = (case resolve_phenotype (is_loader self) i of None \<Rightarrow> i | Some x \<Rightarrow> x)
      then r = NO else h \<in> set (excluded (state self)))"
  "(h \<in> set (unknown (state (answer self i r nm)))) =
     (if h = (case resolve_phenotype (is_loader self) i of None \<Rightarrow> i | Some x \<Rightarrow> x)
      then r = UNKNOWN else h \<in> set (unknown (state self)))"
  by (cases r; auto simp: answer_def Let_def pyset_discard_set pyset_add_set)+

text \<open>
  C9. After any sequence of \<^verbatim>\<open>answer\<close> and \<^verbatim>\<open>reset\<close> operations on a fresh session, and so
  after every prefix of it, the observed, excluded and unknown sets are pairwise disjoint.
  An answer leaves the identifier it resolved in the set of its response and in no other:
  it is in the observed set exactly for \<^verbatim>\<open>YES\<close>, in the excluded set exactly for \<^verbatim>\<open>NO\<close>, in
  the unknown set exactly for \<^verbatim>\<open>UNKNOWN\<close>.
\<close>

theorem session_sets_disjoint:
  "disjoint_state (state (run (InteractiveSession_init ld sc pc) (take n ops))) \<and>
   ((case resolve_phenotype (is_loader self) i of None \<Rightarrow> i | Some x \<Rightarrow> x)
      \<in> set (observed (state (answer self i r nm)))) = (r = YES) \<and>
   ((case resolve_phenotype (is_loader self) i of None \<Rightarrow> i | Some x \<Rightarrow> x)
      \<in> set (excluded (state (answer self i r nm)))) = (r = NO) \<and>
   ((case resolve_phenotype (is_loader self) i of None \<Rightarrow> i | Some x \<Rightarrow> x)
      \<in> set (unknown (state (answer self i r nm)))) = (r = UNKNOWN)"
  by (simp add: run_disjoint [OF init_disjoint] answer_membership)

section \<open>The score of a module\<close>

lemma score_observed_fst:
  "fst (score_observed self p hs (sc, e)) =
     sc + (\<Sum>h\<leftarrow>hs. case map_of (phenotypes p) h of None \<Rightarrow> 0 | Some ph \<Rightarrow> score_phenotype self ph)"
  by (induction hs arbitrary: sc e) (auto simp: Let_def split: option.splits)

lemma score_excluded_fst:
  "fst (score_excluded self p hs (sc, e)) =
     sc - (\<Sum>h\<leftarrow>hs. case map_of (phenotypes p) h of None \<Rightarrow> 0
                      | Some ph \<Rightarrow> if prevalence ph > 0
                                   then score_phenotype self ph * exclusion_penalty (se_config self)
                                   else 0)"
  by (induction hs arbitrary: sc e) (auto simp: Let_def split: option.splits)

lemma score_phenotype_spec: "score_phenotype self ph = spec_score_phenotype (se_config self) ph"
  by (simp add: score_phenotype_def spec_score_phenotype_def)

text \<open>The score in terms of the two loops, whatever the lists hold.\<close>

lemma score_module_sum_list:
  "fst (score_module self m obs exc) =
     max 0 ((\<Sum>h\<leftarrow>obs. spec_reward self m h) - (\<Sum>h\<leftarrow>exc. spec_penalty self m h))"
proof (cases "get_module_profile (se_loader self) m")
  case None
  then show ?thesis
    by (simp add: score_module_def spec_reward_def spec_penalty_def module_phenotype_def)
next
  case (Some p)
  obtain sc e where acc: "score_observed self p obs (0, []) = (sc, e)"
    by (cases "score_observed self p obs (0, [])")
  have "sc = fst (score_observed self p obs (0, []))" using acc by simp
  then have sc: "sc = (\<Sum>h\<leftarrow>obs. spec_reward self m h)"
    by (simp add: score_observed_fst spec_reward_def module_phenotype_def Some score_phenotype_spec
        cong: option.case_cong)
  have "fst (score_excluded self p exc (sc, e)) = sc - (\<Sum>h\<leftarrow>exc. spec_penalty self m h)"
    by (simp add: score_excluded_fst spec_penalty_def module_phenotype_def Some score_phenotype_spec
        cong: option.case_cong if_cong)
  then show ?thesis
    by (simp add: score_module_def Some acc Let_def sc)
qed

lemmas score_module_eval = score_module_def get_module_profile_def score_phenotype_def Let_def

text \<open>
  C1. For every module identifier and all sets of observed and excluded identifiers (each
  given by a list without repetition), the score that \<^verbatim>\<open>score_module\<close> returns is the sum,
  over the observed identifiers found in the phenotype map of the module, of
  \<open>prevalence_weight * (prevalence / 100) + specificity_weight * (specificity / 100)\<close>, minus
  the sum, over the excluded identifiers found there with a prevalence above 0, of that
  same phenotype score times \<open>exclusion_penalty\<close>, floored at 0. Identifiers that are not in
  the phenotype map add nothing to either sum.
\<close>

theorem score_module_formula:
  "distinct obs \<Longrightarrow> distinct exc \<Longrightarrow>
     fst (score_module self m obs exc) = spec_score_module self m (set obs) (set exc)"
  by (simp add: score_module_sum_list spec_score_module_def sum_list_distinct_conv_sum_set)

theorem score_module_formula_witness:
  "distinct [''HP:0001513'', ''HP:9999999''] \<and> distinct [''HP:0000510''] \<and>
   fst (score_module example_engine 7 [''HP:0001513'', ''HP:9999999''] [''HP:0000510'']) =
     spec_score_module example_engine 7
       (set [''HP:0001513'', ''HP:9999999'']) (set [''HP:0000510'']) \<and>
   fst (score_module example_engine 7 [''HP:0001513'', ''HP:9999999''] [''HP:0000510'']) = 7/10"
proof -
  have d1: "distinct [''HP:0001513'', ''HP:9999999'']" by simp
  have d2: "distinct [''HP:0000510'']" by simp
  have v: "fst (score_module example_engine 7 [''HP:0001513'', ''HP:9999999''] [''HP:0000510'']) = 7/10"
    by (simp add: score_module_eval example_defs)
  show ?thesis
    using d1 d2 v score_module_formula [OF d1 d2, of example_engine 7] by simp
qed

section \<open>Adding exclusions\<close>

lemma module_phenotype_in_all:
  "module_phenotype ld m h = Some ph \<Longrightarrow> (h, ph) \<in> set (all_phenotypes ld)"
  by (auto simp: module_phenotype_def get_module_profile_def all_phenotypes_def
      split: option.splits dest!: map_of_SomeD)

lemma spec_penalty_nonneg:
  assumes "percentages_nonneg (se_loader self)"
    and "0 \<le> prevalence_weight (se_config self)"
    and "0 \<le> specificity_weight (se_config self)"
    and "0 \<le> exclusion_penalty (se_config self)"
  shows "0 \<le> spec_penalty self m h"
proof (cases "module_phenotype (se_loader self) m h")
  case None
  then show ?thesis by (simp add: spec_penalty_def)
next
  case (Some ph)
  then have "(h, ph) \<in> set (all_phenotypes (se_loader self))"
    by (rule module_phenotype_in_all)
  with assms(1) have "0 \<le> prevalence ph" "0 \<le> specificity ph"
    by (auto simp: percentages_nonneg_def list_all_iff)
  with assms(2-4) show ?thesis
    by (simp add: spec_penalty_def Some spec_score_phenotype_def)
qed

text \<open>
  In exact arithmetic, with weights and an exclusion penalty that are not negative and
  percentages that are not negative, a larger excluded set never gives a larger score.
\<close>

lemma exact_exclusions_never_raise_score:
  assumes "percentages_nonneg (se_loader self)"
    and "0 \<le> prevalence_weight (se_config self)"
    and "0 \<le> specificity_weight (se_config self)"
    and "0 \<le> exclusion_penalty (se_config self)"
    and "distinct exc1" and "distinct exc2" and "set exc1 \<subseteq> set exc2"
  shows "fst (score_module self m obs exc2) \<le> fst (score_module self m obs exc1)"
proof -
  have "(\<Sum>h\<in>set exc1. spec_penalty self m h) \<le> (\<Sum>h\<in>set exc2. spec_penalty self m h)"
    using assms(7) spec_penalty_nonneg [OF assms(1-4)]
    by (intro sum_mono2) auto
  then have "(\<Sum>h\<leftarrow>exc1. spec_penalty self m h) \<le> (\<Sum>h\<leftarrow>exc2. spec_penalty self m h)"
    using assms(5,6) by (simp add: sum_list_distinct_conv_sum_set)
  then show ?thesis
    by (simp add: score_module_sum_list)
qed

section \<open>Ranking the modules\<close>

lemma mset_py_sort_reverse: "mset (py_sort_reverse k xs) = mset xs"
  by (simp add: py_sort_reverse_def)

lemma set_py_sort_reverse: "set (py_sort_reverse k xs) = set xs"
  by (simp add: py_sort_reverse_def)

lemma sorted_py_sort_reverse: "sorted_wrt (\<lambda>a b. k a \<ge> k b) (py_sort_reverse k xs)"
proof -
  have "sorted (map k (sort_key k (rev xs)))" by (rule sorted_sort_key)
  then have "sorted_wrt (\<lambda>a b. k a \<le> k b) (sort_key k (rev xs))"
    by (simp add: sorted_map)
  then show ?thesis
    by (simp add: py_sort_reverse_def sorted_wrt_rev)
qed

lemma assign_confidence_ids: "map mm_module_id (assign_confidence rs) = map mm_module_id rs"
  by (auto simp: assign_confidence_def Let_def o_def split: list.splits)

lemma assign_confidence_scores: "map score (assign_confidence rs) = map score rs"
  by (auto simp: assign_confidence_def Let_def o_def split: list.splits)

lemma module_match_id: "mm_module_id (module_match self obs exc m) = m"
  by (simp add: module_match_def Let_def split: prod.splits)

lemma module_match_score: "score (module_match self obs exc m) = fst (score_module self m obs exc)"
  by (simp add: module_match_def Let_def split: prod.splits)

lemma get_all_module_ids_set:
  "set (get_all_module_ids ld) = {m. get_module_profile ld m \<noteq> None}"
  by (auto simp: get_all_module_ids_def get_module_profile_def map_of_eq_None_iff)

lemma get_all_module_ids_distinct: "distinct (get_all_module_ids ld)"
  by (simp add: get_all_module_ids_def)

lemma rank_modules_ids:
  "mset (map mm_module_id (rank_modules self obs exc)) = mset (get_all_module_ids (se_loader self))"
proof -
  let ?ms = "map (module_match self obs exc) (get_all_module_ids (se_loader self))"
  have "map mm_module_id (rank_modules self obs exc) = map mm_module_id (py_sort_reverse score ?ms)"
    by (simp add: rank_modules_def assign_confidence_ids)
  then have "mset (map mm_module_id (rank_modules self obs exc)) =
             mset (map mm_module_id (py_sort_reverse score ?ms))"
    by (rule arg_cong)
  also have "\<dots> = image_mset mm_module_id (mset ?ms)"
    by (simp add: mset_py_sort_reverse)
  also have "\<dots> = mset (get_all_module_ids (se_loader self))"
    by (simp add: multiset.map_comp o_def module_match_id)
  finally show ?thesis .
qed

lemma rank_modules_sorted:
  "sorted_wrt (\<lambda>a b. a \<ge> b) (map score (rank_modules self obs exc))"
proof -
  have "sorted_wrt (\<lambda>a b. score a \<ge> score b) (py_sort_reverse score
          (map (module_match self obs exc) (get_all_module_ids (se_loader self))))"
    by (rule sorted_py_sort_reverse)
  then show ?thesis
    by (simp add: rank_modules_def assign_confidence_scores sorted_wrt_map)
qed

lemma assign_confidence_id_score:
  "map (\<lambda>r. (mm_module_id r, score r)) (assign_confidence rs) =
   map (\<lambda>r. (mm_module_id r, score r)) rs"
  by (auto simp: assign_confidence_def Let_def split: list.splits)

lemma rank_modules_scores:
  "map score (rank_modules self obs exc) =
   map (\<lambda>r. fst (score_module self (mm_module_id r) obs exc)) (rank_modules self obs exc)"
proof -
  let ?S = "py_sort_reverse score
              (map (module_match self obs exc) (get_all_module_ids (se_loader self)))"
  let ?R = "rank_modules self obs exc"
  have R: "?R = assign_confidence ?S" by (simp add: rank_modules_def)
  have S: "\<forall>r\<in>set ?S. score r = fst (score_module self (mm_module_id r) obs exc)"
    by (auto simp: set_py_sort_reverse module_match_score module_match_id)
  have "\<forall>r\<in>set ?R. score r = fst (score_module self (mm_module_id r) obs exc)"
  proof
    fix r assume "r \<in> set ?R"
    then have "(mm_module_id r, score r) \<in> set (map (\<lambda>r. (mm_module_id r, score r)) ?R)"
      by force
    then have "(mm_module_id r, score r) \<in> set (map (\<lambda>r. (mm_module_id r, score r)) ?S)"
      unfolding R assign_confidence_id_score .
    then obtain r' where "r' \<in> set ?S" "mm_module_id r' = mm_module_id r" "score r' = score r"
      by auto
    with S show "score r = fst (score_module self (mm_module_id r) obs exc)" by metis
  qed
  then show ?thesis by (simp add: map_eq_conv)
qed

text \<open>
  C2. Whatever the observed and excluded sets, \<^verbatim>\<open>rank_modules\<close> returns exactly one
  \<^verbatim>\<open>ModuleMatch\<close> for each module identifier known to the data provider: the identifiers of
  the result are, as a multiset, the list \<^verbatim>\<open>get_all_module_ids\<close>, which has no repetition and
  holds exactly the identifiers with a module profile (modules of score 0 included). The
  score of each returned match is the score that \<^verbatim>\<open>score_module\<close> gives its module for these
  sets, and these scores are in descending order along the result.
\<close>

theorem rank_modules_covers_and_sorted:
  "mset (map mm_module_id (rank_modules self obs exc)) = mset (get_all_module_ids (se_loader self)) \<and>
   distinct (get_all_module_ids (se_loader self)) \<and>
   set (get_all_module_ids (se_loader self)) = {m. get_module_profile (se_loader self) m \<noteq> None} \<and>
   map score (rank_modules self obs exc) =
     map (\<lambda>r. fst (score_module self (mm_module_id r) obs exc)) (rank_modules self obs exc) \<and>
   sorted_wrt (\<lambda>a b. a \<ge> b) (map score (rank_modules self obs exc))"
  using rank_modules_ids [of self obs exc] rank_modules_sorted [of self obs exc]
    rank_modules_scores [of self obs exc]
    get_all_module_ids_set [of "se_loader self"] get_all_module_ids_distinct [of "se_loader self"]
  by blast

lemmas rank_modules_eval = rank_modules_def module_match_def score_module_eval
  get_all_module_ids_def py_sort_reverse_def assign_confidence_def single_module_engine_def

lemma example_rank_one_positive:
  "rank_modules example_engine [''HP:0001513''] [] =
     [\<lparr>mm_module_id = 7, score = 6 / 5, confidence = 1, gene_count = 2,
       contributing_phenotypes =
         [\<lparr>pi_name = ''Obesity'', pi_hpo_id = ''HP:0001513'', pi_prevalence = 80,
           pi_specificity = 40, pi_genes = [''BBS1'', ''BBS2'']\<rparr>],
       penalized_phenotypes = []\<rparr>,
      \<lparr>mm_module_id = 3, score = 0, confidence = 0, gene_count = 1,
       contributing_phenotypes = [], penalized_phenotypes = []\<rparr>]"
  by (simp add: rank_modules_eval example_defs)

lemma example_rank_single:
  "rank_modules single_module_engine [''HP:0001513''] [] =
     [\<lparr>mm_module_id = 7, score = 6 / 5, confidence = 1, gene_count = 2,
       contributing_phenotypes =
         [\<lparr>pi_name = ''Obesity'', pi_hpo_id = ''HP:0001513'', pi_prevalence = 80,
           pi_specificity = 40, pi_genes = [''BBS1'', ''BBS2'']\<rparr>],
       penalized_phenotypes = []\<rparr>]"
  by (simp add: rank_modules_eval example_defs)

lemma example_rank_two_positive:
  "rank_modules example_engine [''HP:0001513'', ''HP:0000365''] [] =
     [\<lparr>mm_module_id = 3, score = 3 / 2, confidence = 1 / 5, gene_count = 1,
       contributing_phenotypes =
         [\<lparr>pi_name = ''Hearing impairment'', pi_hpo_id = ''HP:0000365'', pi_prevalence = 100,
           pi_specificity = 50, pi_genes = [''USH2A'']\<rparr>],
       penalized_phenotypes = []\<rparr>,
      \<lparr>mm_module_id = 7, score = 6 / 5, confidence = 16 / 25, gene_count = 2,
       contributing_phenotypes =
         [\<lparr>pi_name = ''Obesity'', pi_hpo_id = ''HP:0001513'', pi_prevalence = 80,
           pi_specificity = 40, pi_genes = [''BBS1'', ''BBS2'']\<rparr>],
       penalized_phenotypes = []\<rparr>]"
  by (simp add: rank_modules_eval example_defs)

section \<open>Confidence\<close>

lemma assign_confidence_unique_positive:
  assumes "distinct (map mm_module_id rs)"
    and "sorted_wrt (\<lambda>a b. score a \<ge> score b) rs"
    and "r \<in> set (assign_confidence rs)"
    and "score r > 0"
    and "\<forall>r'\<in>set (assign_confidence rs). mm_module_id r' \<noteq> mm_module_id r \<longrightarrow> score r' = 0"
  shows "confidence r = 1"
proof (cases rs)
  case Nil
  with assms(3) show ?thesis by (simp add: assign_confidence_def)
next
  case (Cons r0 tl)
  note outer = Cons
  show ?thesis
  proof (cases tl)
    case Nil
    with outer assms(3,4) show ?thesis
      by (auto simp: assign_confidence_def split: if_splits)
  next
    case (Cons r1 rest)
    have le: "\<forall>x\<in>set (r1 # rest). score x \<le> score r0"
      using assms(2) outer Cons by auto
    have ne: "\<forall>x\<in>set (r1 # rest). mm_module_id x \<noteq> mm_module_id r0"
      using assms(1) outer Cons by (auto simp: image_iff)
    show ?thesis
    proof (cases "score r0 > 0")
      case False
      with outer Cons assms(3,4) le show ?thesis
        by (auto simp: assign_confidence_def)
    next
      case True
      define c where "c = min 1 (max 0 ((score r0 - score r1) / score r0))"
      have res: "assign_confidence rs =
          r0\<lparr>confidence := c\<rparr> #
          map (\<lambda>x. x\<lparr>confidence := score x / score r0 * (1 - c)\<rparr>) (r1 # rest)"
        using outer Cons True by (simp add: assign_confidence_def Let_def c_def)
      have top: "r = r0\<lparr>confidence := c\<rparr>"
      proof (rule ccontr)
        assume "r \<noteq> r0\<lparr>confidence := c\<rparr>"
        with assms(3) res obtain x where x: "x \<in> set (r1 # rest)"
          "r = x\<lparr>confidence := score x / score r0 * (1 - c)\<rparr>" by auto
        with ne have "mm_module_id (r0\<lparr>confidence := c\<rparr>) \<noteq> mm_module_id r" by auto
        moreover have "r0\<lparr>confidence := c\<rparr> \<in> set (assign_confidence rs)" by (simp add: res)
        ultimately have "score (r0\<lparr>confidence := c\<rparr>) = 0" using assms(5) by blast
        with True show False by simp
      qed
      have "r1\<lparr>confidence := score r1 / score r0 * (1 - c)\<rparr> \<in> set (assign_confidence rs)"
        by (simp add: res)
      moreover have "mm_module_id (r1\<lparr>confidence := score r1 / score r0 * (1 - c)\<rparr>) \<noteq> mm_module_id r"
        using ne top by simp
      ultimately have "score (r1\<lparr>confidence := score r1 / score r0 * (1 - c)\<rparr>) = 0"
        using assms(5) by blast
      then have "score r1 = 0" by simp
      with True have "c = 1" by (simp add: c_def)
      with top show ?thesis by simp
    qed
  qed
qed

text \<open>
  C3. If exactly one module has a positive score and every other module has the score 0,
  the \<^verbatim>\<open>ModuleMatch\<close> that \<^verbatim>\<open>rank_modules\<close> returns for that module has the confidence 1,
  whether it is the only module or there are others of score 0.
\<close>

theorem unique_positive_module_confidence:
  assumes "r \<in> set (rank_modules self obs exc)"
    and "score r > 0"
    and "\<forall>r'\<in>set (rank_modules self obs exc). mm_module_id r' \<noteq> mm_module_id r \<longrightarrow> score r' = 0"
  shows "confidence r = 1"
proof -
  let ?ms = "map (module_match self obs exc) (get_all_module_ids (se_loader self))"
  have "mset (map mm_module_id (py_sort_reverse score ?ms)) = mset (get_all_module_ids (se_loader self))"
    by (simp add: mset_py_sort_reverse multiset.map_comp o_def module_match_id)
  then have d: "distinct (map mm_module_id (py_sort_reverse score ?ms))"
    using get_all_module_ids_distinct [of "se_loader self"] by (metis mset_eq_imp_distinct_iff)
  show ?thesis
    using assign_confidence_unique_positive [OF d sorted_py_sort_reverse] assms
    by (simp add: rank_modules_def)
qed


theorem unique_positive_module_confidence_witness:
  "hd (rank_modules example_engine [''HP:0001513''] [])
     \<in> set (rank_modules example_engine [''HP:0001513''] []) \<and>
   score (hd (rank_modules example_engine [''HP:0001513''] [])) > 0 \<and>
   list_all (\<lambda>r'. mm_module_id r' =
                      mm_module_id (hd (rank_modules example_engine [''HP:0001513''] [])) \<or>
                  score r' = 0)
     (rank_modules example_engine [''HP:0001513''] []) \<and>
   length (rank_modules example_engine [''HP:0001513''] []) = 2 \<and>
   confidence (hd (rank_modules example_engine [''HP:0001513''] [])) = 1 \<and>
   hd (rank_modules single_module_engine [''HP:0001513''] [])
     \<in> set (rank_modules single_module_engine [''HP:0001513''] []) \<and>
   score (hd (rank_modules single_module_engine [''HP:0001513''] [])) > 0 \<and>
   list_all (\<lambda>r'. mm_module_id r' =
                      mm_module_id (hd (rank_modules single_module_engine [''HP:0001513''] [])) \<or>
                  score r' = 0)
     (rank_modules single_module_engine [''HP:0001513''] []) \<and>
   length (rank_modules single_module_engine [''HP:0001513''] []) = 1 \<and>
   confidence (hd (rank_modules single_module_engine [''HP:0001513''] [])) = 1"
proof -
  let ?a = "rank_modules example_engine [''HP:0001513''] []"
  let ?b = "rank_modules single_module_engine [''HP:0001513''] []"
  have a1: "hd ?a \<in> set ?a" and a2: "score (hd ?a) > 0"
    and a3: "\<forall>r'\<in>set ?a. mm_module_id r' \<noteq> mm_module_id (hd ?a) \<longrightarrow> score r' = 0"
    and a4: "length ?a = 2"
    and a5: "list_all (\<lambda>r'. mm_module_id r' = mm_module_id (hd ?a) \<or> score r' = 0) ?a"
    by (simp_all add: example_rank_one_positive)
  have b1: "hd ?b \<in> set ?b" and b2: "score (hd ?b) > 0"
    and b3: "\<forall>r'\<in>set ?b. mm_module_id r' \<noteq> mm_module_id (hd ?b) \<longrightarrow> score r' = 0"
    and b4: "length ?b = 1"
    and b5: "list_all (\<lambda>r'. mm_module_id r' = mm_module_id (hd ?b) \<or> score r' = 0) ?b"
    by (simp_all add: example_rank_single)
  show ?thesis
    using a1 a2 a4 a5 b1 b2 b4 b5
      unique_positive_module_confidence [OF a1 a2 a3]
      unique_positive_module_confidence [OF b1 b2 b3]
    by blast
qed

lemma score_module_nonneg: "0 \<le> fst (score_module self m obs exc)"
  by (simp add: score_module_sum_list)

lemma assign_confidence_range:
  assumes "sorted_wrt (\<lambda>a b. score a \<ge> score b) rs"
    and "\<forall>r\<in>set rs. 0 \<le> score r \<and> confidence r = 0"
    and "r \<in> set (assign_confidence rs)"
  shows "0 \<le> confidence r \<and> confidence r \<le> 1"
proof (cases rs)
  case Nil
  with assms(3) show ?thesis by (simp add: assign_confidence_def)
next
  case (Cons r0 tl)
  note outer = Cons
  show ?thesis
  proof (cases tl)
    case Nil
    with outer assms(2,3) show ?thesis
      by (auto simp: assign_confidence_def split: if_splits)
  next
    case (Cons r1 rest)
    show ?thesis
    proof (cases "score r0 > 0")
      case False
      with outer Cons assms(2,3) show ?thesis
        by (auto simp: assign_confidence_def)
    next
      case True
      define c where "c = min 1 (max 0 ((score r0 - score r1) / score r0))"
      have c: "0 \<le> c" "c \<le> 1" by (simp_all add: c_def)
      from assms(3) outer Cons True
      consider "r = r0\<lparr>confidence := c\<rparr>"
        | x where "x \<in> set (r1 # rest)" "r = x\<lparr>confidence := score x / score r0 * (1 - c)\<rparr>"
        by (auto simp: assign_confidence_def Let_def c_def)
      then show ?thesis
      proof cases
        case 1
        with c show ?thesis by simp
      next
        case 2
        from assms(1) outer Cons 2(1) have le: "score x \<le> score r0" by auto
        from assms(2) outer Cons 2(1) have ge: "0 \<le> score x" by auto
        from le ge True have q: "0 \<le> score x / score r0" "score x / score r0 \<le> 1"
          by simp_all
        from c have d: "0 \<le> 1 - c" "1 - c \<le> 1" by simp_all
        have "score x / score r0 * (1 - c) \<le> 1 * 1"
          using q d by (intro mult_mono) simp_all
        moreover have "0 \<le> score x / score r0 * (1 - c)"
          using q(1) d(1) by (rule mult_nonneg_nonneg)
        ultimately show ?thesis unfolding 2(2) by simp
      qed
    qed
  qed
qed

text \<open>
  C4. Every \<^verbatim>\<open>ModuleMatch\<close> that \<^verbatim>\<open>rank_modules\<close> returns has a confidence between 0 and 1.
  The confidence of the first is clamped; that of any other, computed without a clamp
  as \<open>(score_i / score_0) * (1 - confidence_0)\<close>, is in the interval because the scores are not
  negative and the list is in descending order of score.
\<close>

theorem confidence_in_unit_interval:
  "r \<in> set (rank_modules self obs exc) \<Longrightarrow> 0 \<le> confidence r \<and> confidence r \<le> 1"
proof (rule assign_confidence_range)
  let ?ms = "map (module_match self obs exc) (get_all_module_ids (se_loader self))"
  show "sorted_wrt (\<lambda>a b. score a \<ge> score b) (py_sort_reverse score ?ms)"
    by (rule sorted_py_sort_reverse)
  show "\<forall>r\<in>set (py_sort_reverse score ?ms). 0 \<le> score r \<and> confidence r = 0"
    by (auto simp: set_py_sort_reverse module_match_score score_module_nonneg)
      (simp add: module_match_def Let_def split: prod.splits)
  assume "r \<in> set (rank_modules self obs exc)"
  then show "r \<in> set (assign_confidence (py_sort_reverse score ?ms))"
    by (simp add: rank_modules_def)
qed

theorem confidence_in_unit_interval_witness:
  "last (rank_modules example_engine [''HP:0001513'', ''HP:0000365''] [])
     \<in> set (rank_modules example_engine [''HP:0001513'', ''HP:0000365''] []) \<and>
   0 \<le> confidence (last (rank_modules example_engine [''HP:0001513'', ''HP:0000365''] [])) \<and>
   confidence (last (rank_modules example_engine [''HP:0001513'', ''HP:0000365''] [])) \<le> 1 \<and>
   confidence (last (rank_modules example_engine [''HP:0001513'', ''HP:0000365''] [])) = 16 / 25"
proof -
  let ?a = "rank_modules example_engine [''HP:0001513'', ''HP:0000365''] []"
  have h: "last ?a \<in> set ?a" and v: "confidence (last ?a) = 16 / 25"
    by (simp_all add: example_rank_two_positive)
  show ?thesis
    using h v confidence_in_unit_interval [OF h] by blast
qed

section \<open>What loading establishes\<close>

lemma index_phenotypes_fields:
  "module_profiles (index_phenotypes mid items ld) = module_profiles ld \<and>
   gene_mapping (index_phenotypes mid items ld) = gene_mapping ld \<and>
   module_genes (index_phenotypes mid items ld) = module_genes ld"
  by (induction mid items ld rule: index_phenotypes.induct) (simp_all add: Let_def)




lemma index_modules_fields:
  "module_profiles (index_modules items ld) = module_profiles ld \<and>
   gene_mapping (index_modules items ld) = gene_mapping ld \<and>
   module_genes (index_modules items ld) = module_genes ld"
  by (induction items ld rule: index_modules.induct) (simp_all add: index_phenotypes_fields)





lemma classifiedD:
  "module_genes_classified ld m \<Longrightarrow> module_genes ld m = Some gs \<Longrightarrow> g \<in> set gs \<Longrightarrow>
     gene_mapping ld g \<noteq> None"
  by (simp add: module_genes_classified_def get_module_genes_def get_gene_info_def list_all_iff
      del: not_None_eq)

lemma classifiedI:
  "(\<And>gs g. module_genes ld m = Some gs \<Longrightarrow> g \<in> set gs \<Longrightarrow> gene_mapping ld g \<noteq> None) \<Longrightarrow>
     module_genes_classified ld m"
  by (cases "module_genes ld m")
    (simp_all add: module_genes_classified_def get_module_genes_def get_gene_info_def list_all_iff
      del: not_None_eq)

lemma load_gene_mapping_classified:
  "\<forall>m. module_genes_classified ld m \<Longrightarrow> module_genes_classified (load_gene_mapping rows ld) m"
proof (induction rows ld rule: load_gene_mapping.induct)
  case (1 ld)
  then show ?case by simp
next
  case (2 row rows ld)
  show ?case
  proof (cases "row_gene row")
    case None
    with 2 show ?thesis by simp
  next
    case (Some g)
    show ?thesis
    proof (cases "g = []")
      case True
      with 2 Some show ?thesis by simp
    next
      case False
      let ?gm = "(gene_mapping ld)
                        (g \<mapsto> \<lparr>gene = g, gi_module_id = row_module_id row,
                                stability_score = row_stability_score row,
                                classification = row_classification row\<rparr>)"
      let ?mid = "row_module_id row"
      let ?mg1 = "(if module_genes ld ?mid = None then (module_genes ld)(?mid \<mapsto> []) else module_genes ld)"
      let ?mg2 = "(case ?mg1 ?mid of None \<Rightarrow> ?mg1 | Some s \<Rightarrow> ?mg1(?mid \<mapsto> pyset_add g s))"
      let ?ld = "ld\<lparr>gene_mapping := ?gm, module_genes := ?mg2\<rparr>"
      have "module_genes_classified ?ld a" for a
      proof (rule classifiedI)
        fix gs x
        assume gs: "module_genes ?ld a = Some gs" and x: "x \<in> set gs"
        have "x = g \<or> (\<exists>gs0. module_genes ld a = Some gs0 \<and> x \<in> set gs0)"
          using gs x by (auto simp: pyset_add_set split: option.splits if_splits)
        then show "gene_mapping ?ld x \<noteq> None"
          using "2.prems" by (auto dest: classifiedD simp del: not_None_eq)
      qed
      then have "\<forall>m. module_genes_classified ?ld m" by blast
      then have "module_genes_classified (load_gene_mapping rows ?ld) m"
        by (rule "2.IH"(3) [OF Some False refl refl refl refl refl])
      then show ?thesis
        by (simp add: Some False Let_def)
    qed
  qed
qed

lemma load_classified: "module_genes_classified (load rows profiles) m"
proof -
  have "\<forall>m. module_genes_classified DataLoader_init m"
    by (simp add: module_genes_classified_def get_module_genes_def DataLoader_init_def)
  then have "module_genes_classified (load_gene_mapping rows DataLoader_init) m"
    by (rule load_gene_mapping_classified)
  then show ?thesis
    by (simp add: load_def build_indexes_def module_genes_classified_def get_module_genes_def
        get_gene_info_def index_modules_fields)
qed

section \<open>The genes of a module without observations\<close>

lemma update_absent: "map_of al k = None \<Longrightarrow> AList.update k v al = al @ [(k, v)]"
  by (induction al) (auto split: if_splits)

lemma add_module_genes_keys:
  "fst ` set (add_module_genes gs acc) = fst ` set acc \<union> set gs"
  by (induction gs arbitrary: acc) (auto simp: update_absent map_of_eq_None_iff)

lemma add_module_genes_distinct:
  "distinct (map fst acc) \<Longrightarrow> distinct (map fst (add_module_genes gs acc))"
  by (induction gs arbitrary: acc) (auto simp: update_absent map_of_eq_None_iff)

lemma add_module_genes_zero:
  "\<forall>e\<in>set acc. snd e = (0, []) \<Longrightarrow> e \<in> set (add_module_genes gs acc) \<Longrightarrow> snd e = (0, [])"
proof (induction gs arbitrary: acc)
  case Nil
  then show ?case by simp
next
  case (Cons g gs)
  let ?acc = "if map_of acc g = None then AList.update g (0, []) acc else acc"
  have "\<forall>e\<in>set ?acc. snd e = (0, [])"
    using Cons.prems(1) by (auto simp: update_absent)
  moreover have "e \<in> set (add_module_genes gs ?acc)"
    using Cons.prems(2) by simp
  ultimately show ?case by (rule Cons.IH)
qed

text \<open>The candidates, one for each scored gene that has a classification.\<close>

lemma build_candidates_concat:
  "build_candidates self m items =
     concat (map (\<lambda>(g, s, ps).
       case get_gene_info (se_loader self) g of
         None \<Rightarrow> []
       | Some gi \<Rightarrow>
           [\<lparr>gc_gene = g, gc_module_id = m,
             support_score = s + spec_stability_adjustment (se_config self) (classification gi),
             gc_stability_score = stability_score gi, gc_classification = classification gi,
             supporting_phenotypes = ps\<rparr>]) items)"
  by (induction self m items rule: build_candidates.induct)
    (auto simp: Let_def spec_stability_adjustment_def split: option.splits)

lemma build_candidates_genes:
  "map gc_gene (build_candidates self m items) =
     filter (\<lambda>g. get_gene_info (se_loader self) g \<noteq> None) (map fst items)"
  by (induction self m items rule: build_candidates.induct) (auto simp: Let_def split: option.splits)

lemma build_candidates_item:
  "c \<in> set (build_candidates self m items) \<Longrightarrow>
     \<exists>s ps gi. (gc_gene c, s, ps) \<in> set items \<and>
       get_gene_info (se_loader self) (gc_gene c) = Some gi \<and>
       supporting_phenotypes c = ps \<and>
       support_score c = s + spec_stability_adjustment (se_config self) (classification gi)"
  unfolding build_candidates_concat
  by (auto split: option.splits) (metis (no_types))

text \<open>
  C6. For a module with a profile whose genes all have a classification (as they have in
  loaded data, see \<open>load_classified\<close>), \<^verbatim>\<open>rank_genes\<close> with no observed identifier returns
  exactly one \<^verbatim>\<open>GeneCandidate\<close> for every gene of the gene set of the module; each has no
  supporting phenotype and a support score that is its stability adjustment alone:
  \<open>stability_bonus\<close> for a core gene, \<open>- stability_bonus * 0.5\<close> for an unstable one and 0
  otherwise (0.1, -0.05 and 0 with the default configuration).
\<close>

theorem rank_genes_no_observation:
  assumes "get_module_profile (se_loader self) m \<noteq> None"
    and "module_genes_classified (se_loader self) m"
  shows "distinct (map gc_gene (rank_genes self m [])) \<and>
         set (map gc_gene (rank_genes self m [])) = set (get_module_genes (se_loader self) m) \<and>
         (\<forall>c\<in>set (rank_genes self m []).
            supporting_phenotypes c = [] \<and>
            (\<exists>gi. get_gene_info (se_loader self) (gc_gene c) = Some gi \<and>
                  support_score c = spec_stability_adjustment (se_config self) (classification gi)))"
proof -
  let ?gs = "add_module_genes (get_module_genes (se_loader self) m) []"
  let ?cs = "build_candidates self m ?gs"
  let ?key = "\<lambda>x. (support_score x, gc_stability_score x)"
  from assms(1) have rg: "rank_genes self m [] = py_sort_reverse ?key ?cs"
    by (auto simp: rank_genes_def Let_def)
  have keys: "set (map fst ?gs) = set (get_module_genes (se_loader self) m)"
    by (simp add: add_module_genes_keys)
  have dist: "distinct (map fst ?gs)"
    by (rule add_module_genes_distinct) simp
  have zero: "\<forall>e\<in>set ?gs. snd e = (0, [])"
    using add_module_genes_zero [of "[]"] by simp
  from assms(2) keys have all_info: "\<forall>g\<in>set (map fst ?gs). get_gene_info (se_loader self) g \<noteq> None"
    by (simp add: module_genes_classified_def list_all_iff)
  then have genes: "map gc_gene ?cs = map fst ?gs"
    unfolding build_candidates_genes by (simp add: filter_id_conv)
  have "mset (map gc_gene (rank_genes self m [])) = mset (map gc_gene ?cs)"
    unfolding rg by (simp add: py_sort_reverse_def)
  then have perm: "mset (map gc_gene (rank_genes self m [])) = mset (map fst ?gs)"
    using genes by simp
  have d: "distinct (map gc_gene (rank_genes self m []))"
    using perm dist by (metis mset_eq_imp_distinct_iff)
  have s: "set (map gc_gene (rank_genes self m [])) = set (get_module_genes (se_loader self) m)"
    using perm keys by (metis mset_eq_setD)
  have each: "\<forall>c\<in>set (rank_genes self m []).
            supporting_phenotypes c = [] \<and>
            (\<exists>gi. get_gene_info (se_loader self) (gc_gene c) = Some gi \<and>
                  support_score c = spec_stability_adjustment (se_config self) (classification gi))"
  proof
    fix c assume "c \<in> set (rank_genes self m [])"
    then have "c \<in> set ?cs" unfolding rg by (simp add: py_sort_reverse_def)
    from build_candidates_item [OF this] obtain s ps gi where
      i: "(gc_gene c, s, ps) \<in> set ?gs"
      and gi: "get_gene_info (se_loader self) (gc_gene c) = Some gi"
      and ps: "supporting_phenotypes c = ps"
      and sc: "support_score c = s + spec_stability_adjustment (se_config self) (classification gi)"
      by blast
    from zero i have "s = 0" "ps = []" by auto
    with gi ps sc show "supporting_phenotypes c = [] \<and>
            (\<exists>gi. get_gene_info (se_loader self) (gc_gene c) = Some gi \<and>
                  support_score c = spec_stability_adjustment (se_config self) (classification gi))"
      by simp
  qed
  from d s each show ?thesis by blast
qed

lemma example_rank_genes:
  "rank_genes example_engine 7 [] =
     [\<lparr>gc_gene = ''BBS1'', gc_module_id = 7, support_score = 1 / 10,
       gc_stability_score = 9 / 10, gc_classification = ''core'', supporting_phenotypes = []\<rparr>,
      \<lparr>gc_gene = ''BBS2'', gc_module_id = 7, support_score = - (1 / 20),
       gc_stability_score = 3 / 10, gc_classification = ''unstable'', supporting_phenotypes = []\<rparr>]"
  by (simp add: rank_genes_def get_module_profile_def get_module_genes_def get_gene_info_def
      py_sort_reverse_def Let_def example_defs)

theorem rank_genes_no_observation_witness:
  "get_module_profile (se_loader example_engine) 7 \<noteq> None \<and>
   module_genes_classified (se_loader example_engine) 7 \<and>
   distinct (map gc_gene (rank_genes example_engine 7 [])) \<and>
   set (map gc_gene (rank_genes example_engine 7 [])) =
     set (get_module_genes (se_loader example_engine) 7) \<and>
   list_all (\<lambda>c. supporting_phenotypes c = []) (rank_genes example_engine 7 []) \<and>
   map (\<lambda>c. (gc_gene c, gc_classification c, support_score c)) (rank_genes example_engine 7 []) =
     [(''BBS1'', ''core'', 1 / 10), (''BBS2'', ''unstable'', - (1 / 20))]"
proof -
  have h1: "get_module_profile (se_loader example_engine) 7 \<noteq> None"
    by (simp add: get_module_profile_def example_defs)
  have h2: "module_genes_classified (se_loader example_engine) 7"
    by (simp add: module_genes_classified_def get_module_genes_def get_gene_info_def example_defs)
  have v: "map (\<lambda>c. (gc_gene c, gc_classification c, support_score c))
             (rank_genes example_engine 7 []) =
     [(''BBS1'', ''core'', 1 / 10), (''BBS2'', ''unstable'', - (1 / 20))]"
    by (simp add: example_rank_genes)
  from rank_genes_no_observation [OF h1 h2]
  have "distinct (map gc_gene (rank_genes example_engine 7 []))"
    and "set (map gc_gene (rank_genes example_engine 7 [])) =
           set (get_module_genes (se_loader example_engine) 7)"
    and "list_all (\<lambda>c. supporting_phenotypes c = []) (rank_genes example_engine 7 [])"
    by (simp_all add: list_all_iff)
  with h1 h2 v show ?thesis by blast
qed

section \<open>The explanation of an exclusion\<close>

lemma explain_observed_append:
  "explain_observed profile hs acc = acc @ map (spec_support_item profile) hs"
  by (induction hs arbitrary: acc) (simp_all add: Let_def spec_support_item_def split: option.splits)

lemma explain_excluded_append:
  "explain_excluded profile hs acc = acc @ concat (map (spec_penalty_items profile) hs)"
  by (induction hs arbitrary: acc)
    (simp_all add: Let_def spec_penalty_items_def spec_penalty_item_def split: option.splits)

lemma explain_scoring_set:
  "get_module_profile (pe_loader pe) m = Some profile \<Longrightarrow>
     set (explain_scoring pe m obs exc) =
       spec_support_item profile ` set obs \<union> (\<Union>h\<in>set exc. set (spec_penalty_items profile h))"
  by (auto simp: explain_scoring_def Let_def py_sort_reverse_def explain_observed_append
      explain_excluded_append)

lemma support_item_not_penalty: "explanation (spec_support_item profile h) \<noteq> Penalizes_module x"
  by (simp add: spec_support_item_def split: option.splits)

text \<open>
  C7. For an excluded identifier whose phenotype the module has with a prevalence above 0,
  \<^verbatim>\<open>explain_scoring\<close> returns an entry for it with the contribution
  \<open>- (prevalence + specificity) / 400\<close>, and every penalty entry it returns for that
  identifier has this contribution. The explanation does not read the scoring
  configuration: two sessions over the same data that differ only in \<open>exclusion_penalty\<close>
  give the same explanation.
\<close>

theorem explanation_penalty_fixed:
  assumes "get_module_profile (pe_loader pe) m = Some profile"
    and "h \<in> set exc"
    and "map_of (phenotypes profile) h = Some pheno"
    and "prevalence pheno > 0"
  shows "spec_penalty_item h pheno \<in> set (explain_scoring pe m obs exc) \<and>
         contribution (spec_penalty_item h pheno) = - ((prevalence pheno + specificity pheno) / 400) \<and>
         (\<forall>item\<in>set (explain_scoring pe m obs exc).
            ei_hpo_id item = h \<and> (\<exists>x. explanation item = Penalizes_module x) \<longrightarrow>
            contribution item = - ((prevalence pheno + specificity pheno) / 400)) \<and>
         explain_scoring (predictor (InteractiveSession_init (pe_loader pe) (Some cfg) pc)) m obs exc =
         explain_scoring
           (predictor (InteractiveSession_init (pe_loader pe)
              (Some (cfg\<lparr>exclusion_penalty := x\<rparr>)) pc)) m obs exc"
proof -
  note st = explain_scoring_set [OF assms(1)]
  have "spec_penalty_item h pheno \<in> set (spec_penalty_items profile h)"
    using assms(3,4) by (simp add: spec_penalty_items_def)
  with assms(2) have a: "spec_penalty_item h pheno \<in> set (explain_scoring pe m obs exc)"
    unfolding st by blast
  have b: "contribution (spec_penalty_item h pheno) = - ((prevalence pheno + specificity pheno) / 400)"
    by (simp add: spec_penalty_item_def)
  have c: "\<forall>item\<in>set (explain_scoring pe m obs exc).
            ei_hpo_id item = h \<and> (\<exists>x. explanation item = Penalizes_module x) \<longrightarrow>
            contribution item = - ((prevalence pheno + specificity pheno) / 400)"
    unfolding st using assms(3)
    by (auto simp: support_item_not_penalty spec_penalty_items_def spec_penalty_item_def
        split: option.splits if_splits)
  have d: "explain_scoring (predictor (InteractiveSession_init (pe_loader pe) (Some cfg) pc)) m obs exc =
         explain_scoring
           (predictor (InteractiveSession_init (pe_loader pe)
              (Some (cfg\<lparr>exclusion_penalty := x\<rparr>)) pc)) m obs exc"
    by (simp add: InteractiveSession_init_def)
  from a b c d show ?thesis by blast
qed


theorem explanation_penalty_fixed_witness:
  "get_module_profile (pe_loader (PredictionEngine_init example_loader None)) 7 =
     Some (snd (hd example_profiles)) \<and>
   ''HP:0000510'' \<in> set [''HP:0000510''] \<and>
   map_of (phenotypes (snd (hd example_profiles))) ''HP:0000510'' = Some rod_cone7 \<and>
   prevalence rod_cone7 > 0 \<and>
   spec_penalty_item ''HP:0000510'' rod_cone7
     \<in> set (explain_scoring (PredictionEngine_init example_loader None) 7
              [''HP:0001513''] [''HP:0000510'']) \<and>
   contribution (spec_penalty_item ''HP:0000510'' rod_cone7) = - (1 / 4) \<and>
   explain_scoring
     (predictor (InteractiveSession_init
        (pe_loader (PredictionEngine_init example_loader None))
        (Some default_ScoringConfig) None)) 7 [''HP:0001513''] [''HP:0000510''] =
   explain_scoring
     (predictor (InteractiveSession_init
        (pe_loader (PredictionEngine_init example_loader None))
        (Some (default_ScoringConfig\<lparr>exclusion_penalty := 9 / 10\<rparr>)) None)) 7
       [''HP:0001513''] [''HP:0000510'']"
proof -
  let ?pe = "PredictionEngine_init example_loader None"
  have h1: "get_module_profile (pe_loader ?pe) 7 = Some (snd (hd example_profiles))"
    by (simp add: get_module_profile_def PredictionEngine_init_def example_defs)
  have h2: "''HP:0000510'' \<in> set [''HP:0000510'']" by simp
  have h3: "map_of (phenotypes (snd (hd example_profiles))) ''HP:0000510'' = Some rod_cone7"
    by (simp add: example_profiles_def)
  have h4: "prevalence rod_cone7 > 0" by (simp add: rod_cone7_def)
  have v: "- ((prevalence rod_cone7 + specificity rod_cone7) / 400) = - (1 / 4)"
    by (simp add: rod_cone7_def)
  show ?thesis
    using h1 h2 h3 h4 v
      explanation_penalty_fixed [OF h1 h2 h3 h4, of "[''HP:0001513'']" default_ScoringConfig None "9 / 10"]
    by simp
qed

section \<open>Answers with an unresolved identifier\<close>















section \<open>Rounding\<close>
























section \<open>Adding exclusions in the arithmetic of the program\<close>


























end
